theory Spec2Isabelle
  imports Complex_Main "HOL-Library.Sublist" "HOL-Library.Multiset"
begin

section \<open>Data model\<close>

text \<open>
  The two scripts \<^verbatim>\<open>personal_inflation.py\<close> and \<^verbatim>\<open>personal_inflation_fred_plus.py\<close>
  compute with Python floats. A float is modelled here as either the not-a-number
  value or a finite number, and a finite number is a real: the arithmetic of the
  model is exact. What IEEE doubles add to it is outside the model: rounding,
  the infinities, overflow to infinity and underflow to zero. The statements
  below are therefore about runs in which the doubles stay finite and away from
  these limits. Where a double changes the outcome in kind, the model does not
  follow the code: a quotient \<^verbatim>\<open>b / a\<close> that underflows to \<^verbatim>\<open>0.0\<close> makes \<^verbatim>\<open>math.log\<close>
  raise \<^verbatim>\<open>ValueError\<close>; \<^verbatim>\<open>r - 1.0\<close> is exactly \<^verbatim>\<open>-1.0\<close> for a relative below
  \<^verbatim>\<open>2**-54\<close>; a sum of weights can cancel to \<^verbatim>\<open>0.0\<close> or overflow.
\<close>

datatype pyfloat = NaN | Fin real

text \<open>The exceptions the modelled code can raise, as values.\<close>

datatype error =
    ZeroDivisionError
  | KeyError
  | ValueError
  | HTTPError
  | SystemExit string
  | SystemExitStatus nat

text \<open>
  Truth value of a float in a condition (\<^verbatim>\<open>if a\<close>): every float other than zero
  is true, not-a-number included. A comparison with not-a-number is false.
\<close>

fun truthy :: "pyfloat \<Rightarrow> bool" where
  "truthy NaN = True"
| "truthy (Fin x) = (x \<noteq> 0)"

fun gt_zero :: "pyfloat \<Rightarrow> bool" where
  "gt_zero NaN = False"
| "gt_zero (Fin x) = (0 < x)"

text \<open>The guard \<^verbatim>\<open>a and b and a > 0 and b > 0\<close> of both aggregators.\<close>

definition usable :: "pyfloat \<Rightarrow> pyfloat \<Rightarrow> bool" where
  "usable a b = (truthy a \<and> truthy b \<and> gt_zero a \<and> gt_zero b)"

text \<open>
  \<^verbatim>\<open>b / a\<close> under that guard. The guard leaves only finite, strictly positive
  operands, so the quotient is a finite number and the division cannot raise;
  a row that fails the guard contributes nothing.
\<close>

fun relative :: "pyfloat \<Rightarrow> pyfloat \<Rightarrow> real option" where
  "relative (Fin a) (Fin b) = (if usable (Fin a) (Fin b) then Some (b / a) else None)"
| "relative _ _ = None"

type_synonym row = "string \<times> pyfloat \<times> pyfloat"

text \<open>Python's \<^verbatim>\<open>sum\<close>: start at zero, add from the left.\<close>

definition py_sum :: "real list \<Rightarrow> real" where
  "py_sum xs = foldl (+) 0 xs"

section \<open>Unweighted statistics\<close>

text \<open>The loop of \<^verbatim>\<open>compute_unweighted\<close> that collects the relatives.\<close>

fun collect_rels :: "row list \<Rightarrow> real list \<Rightarrow> real list" where
  "collect_rels [] rels = rels"
| "collect_rels ((_, a, b) # rows) rels =
     (case relative a b of
        Some r \<Rightarrow> collect_rels rows (rels @ [r])
      | None \<Rightarrow> collect_rels rows rels)"

definition compute_unweighted :: "row list \<Rightarrow> pyfloat \<times> pyfloat" where
  "compute_unweighted rows =
     (let rels = collect_rels rows [] in
      if rels = [] then (NaN, NaN)
      else
        (Fin (py_sum (map (\<lambda>r. r - 1) rels) / real (length rels)),
         Fin (exp (py_sum (map ln rels) / real (length rels)) - 1)))"

section \<open>Purchasing power\<close>

text \<open>
  \<^verbatim>\<open>purchasing_power_after\<close> tests its argument for \<^verbatim>\<open>None\<close> and for not-a-number
  and then divides without a guard: Python raises \<^verbatim>\<open>ZeroDivisionError\<close> when
  \<^verbatim>\<open>1.0 + pct_change\<close> is zero.
\<close>

fun purchasing_power_after :: "pyfloat option \<Rightarrow> error + (pyfloat \<times> pyfloat)" where
  "purchasing_power_after None = Inr (NaN, NaN)"
| "purchasing_power_after (Some NaN) = Inr (NaN, NaN)"
| "purchasing_power_after (Some (Fin p)) =
     (if 1 + p = 0 then Inl ZeroDivisionError
      else (let remaining = 1 / (1 + p) in Inr (Fin remaining, Fin (1 - remaining))))"

section \<open>Categories\<close>

text \<open>
  \<^verbatim>\<open>str.lower\<close> on item names. The names of the catalog are ASCII, and the model
  lowers the ASCII capitals only: \<^verbatim>\<open>chr(ord(c) + 32)\<close> for \<^verbatim>\<open>A\<close> to \<^verbatim>\<open>Z\<close>.
\<close>

definition lower_char :: "char \<Rightarrow> char" where
  "lower_char c =
     (let n = (of_char c :: nat) in if 65 \<le> n \<and> n \<le> 90 then char_of (n + 32) else c)"

definition lower :: "string \<Rightarrow> string" where
  "lower s = map lower_char s"

definition CATEGORY_KEYWORDS :: "(string \<times> string list) list" where
  "CATEGORY_KEYWORDS =
     [(''food_at_home'',
         [''bread'', ''chicken'', ''rice'', ''coffee'', ''potatoes'', ''banana'',
          ''peanut butter'', ''egg'', ''milk'', ''ground beef'', ''beef'']),
      (''utilities_electric'', [''electricity'']),
      (''utilities_gas'', [''natural gas'', ''per therm'']),
      (''transport_fuel'', [''gasoline''])]"

text \<open>
  The inner loop of \<^verbatim>\<open>categorize_item\<close>: \<^verbatim>\<open>needle in n\<close> is the test for a
  contiguous substring, \<^const>\<open>sublist\<close>.
\<close>

fun any_needle :: "string \<Rightarrow> string list \<Rightarrow> bool" where
  "any_needle n [] = False"
| "any_needle n (needle # needles) = (if sublist needle n then True else any_needle n needles)"

text \<open>The outer loop, over the rules in order, returning at the first hit.\<close>

fun categorize_rules :: "string \<Rightarrow> (string \<times> string list) list \<Rightarrow> string" where
  "categorize_rules n [] = ''unclassified''"
| "categorize_rules n ((cat, needles) # rules) =
     (if any_needle n needles then cat else categorize_rules n rules)"

text \<open>\<^verbatim>\<open>name or ""\<close> is the name itself for every string.\<close>

definition categorize_item :: "string \<Rightarrow> string" where
  "categorize_item name = categorize_rules (lower name) CATEGORY_KEYWORDS"

definition DEFAULT_WEIGHTS :: "string \<rightharpoonup> real" where
  "DEFAULT_WEIGHTS =
     [''food_at_home'' \<mapsto> 0.45,
      ''utilities_electric'' \<mapsto> 0.20,
      ''utilities_gas'' \<mapsto> 0.15,
      ''transport_fuel'' \<mapsto> 0.20]"

section \<open>Weighted index\<close>

text \<open>
  \<^verbatim>\<open>by_cat\<close> is a dictionary from category to the list of its relatives. Python
  dictionaries keep insertion order and \<^verbatim>\<open>present\<close> is read from that order, so
  the model is an association list with one entry per key.
  \<^verbatim>\<open>by_cat.setdefault(cat, []).append(r)\<close>:
\<close>

type_synonym by_cat = "(string \<times> real list) list"

fun setdefault_append :: "string \<Rightarrow> real \<Rightarrow> by_cat \<Rightarrow> by_cat" where
  "setdefault_append cat r [] = [(cat, [r])]"
| "setdefault_append cat r ((k, rels) # m) =
     (if k = cat then (k, rels @ [r]) # m else (k, rels) # setdefault_append cat r m)"

fun build_by_cat :: "(string \<rightharpoonup> real) \<Rightarrow> row list \<Rightarrow> by_cat \<Rightarrow> by_cat" where
  "build_by_cat cat_weights [] m = m"
| "build_by_cat cat_weights ((item, a, b) # rows) m =
     (if cat_weights (categorize_item item) = None then build_by_cat cat_weights rows m
      else
        (case relative a b of
           Some r \<Rightarrow> build_by_cat cat_weights rows (setdefault_append (categorize_item item) r m)
         | None \<Rightarrow> build_by_cat cat_weights rows m))"

text \<open>\<^verbatim>\<open>sum(cat_weights[c] for c in present)\<close>; a missing key raises.\<close>

fun sum_weights :: "(string \<rightharpoonup> real) \<Rightarrow> string list \<Rightarrow> real \<Rightarrow> error + real" where
  "sum_weights cat_weights [] s = Inr s"
| "sum_weights cat_weights (c # cs) s =
     (case cat_weights c of
        None \<Rightarrow> Inl KeyError
      | Some w \<Rightarrow> sum_weights cat_weights cs (s + w))"

text \<open>
  \<^verbatim>\<open>{c: cat_weights[c] / total_w for c in present}\<close>. The division is not
  guarded: a zero total raises \<^verbatim>\<open>ZeroDivisionError\<close> at the first category.
\<close>

fun norm_weights :: "(string \<rightharpoonup> real) \<Rightarrow> real \<Rightarrow> string list \<Rightarrow> error + (string \<times> real) list" where
  "norm_weights cat_weights total_w [] = Inr []"
| "norm_weights cat_weights total_w (c # cs) =
     (case cat_weights c of
        None \<Rightarrow> Inl KeyError
      | Some w \<Rightarrow>
          if total_w = 0 then Inl ZeroDivisionError
          else
            (case norm_weights cat_weights total_w cs of
               Inl e \<Rightarrow> Inl e
             | Inr norm_w \<Rightarrow> Inr ((c, w / total_w) # norm_w)))"

text \<open>The loop that adds each category's contribution to \<^verbatim>\<open>weighted\<close>.\<close>

fun weighted_loop :: "by_cat \<Rightarrow> (string \<times> real) list \<Rightarrow> string list \<Rightarrow> real \<Rightarrow> error + real" where
  "weighted_loop m norm_w [] weighted = Inr weighted"
| "weighted_loop m norm_w (c # cs) weighted =
     (case map_of m c of
        None \<Rightarrow> Inl KeyError
      | Some rels \<Rightarrow>
          if rels = [] then weighted_loop m norm_w cs weighted
          else
            (let within_cat = 1 / real (length rels);
                 cat_contrib = py_sum (map (\<lambda>r. (r - 1) * within_cat) rels)
             in case map_of norm_w c of
                  None \<Rightarrow> Inl KeyError
                | Some nw \<Rightarrow> weighted_loop m norm_w cs (weighted + nw * cat_contrib)))"

definition compute_weighted ::
  "row list \<Rightarrow> (string \<rightharpoonup> real) \<Rightarrow> error + (pyfloat \<times> (string \<times> real) list)" where
  "compute_weighted rows cat_weights =
     (let m = build_by_cat cat_weights rows [] in
      if m = [] then Inr (NaN, [])
      else
        (let present = map fst m in
         case sum_weights cat_weights present 0 of
           Inl e \<Rightarrow> Inl e
         | Inr total_w \<Rightarrow>
             (case norm_weights cat_weights total_w present of
                Inl e \<Rightarrow> Inl e
              | Inr norm_w \<Rightarrow>
                  (case weighted_loop m norm_w present 0 of
                     Inl e \<Rightarrow> Inl e
                   | Inr weighted \<Rightarrow> Inr (Fin weighted, norm_w)))))"

section \<open>Fetching\<close>

text \<open>
  An observation of the response is a JSON object; only its \<^verbatim>\<open>value\<close> field, a
  string, is read. The network and Python's \<^verbatim>\<open>float\<close> on a string are not code
  of the scripts: the response of a request and the string conversion are
  parameters of the model.
\<close>

type_synonym observation = "string \<rightharpoonup> string"
type_synonym parser = "string \<Rightarrow> error + pyfloat"
type_synonym network = "string \<Rightarrow> int \<Rightarrow> string \<Rightarrow> error + observation list"

fun fadd :: "pyfloat \<Rightarrow> pyfloat \<Rightarrow> pyfloat" where
  "fadd (Fin x) (Fin y) = Fin (x + y)"
| "fadd _ _ = NaN"

definition fsum :: "pyfloat list \<Rightarrow> pyfloat" where
  "fsum xs = foldl fadd (Fin 0) xs"

text \<open>Division of a float by the length of a non-empty list.\<close>

fun fdiv_len :: "pyfloat \<Rightarrow> nat \<Rightarrow> pyfloat" where
  "fdiv_len NaN n = NaN"
| "fdiv_len (Fin x) n = Fin (x / real n)"

text \<open>
  The comprehension
  \<^verbatim>\<open>[float(o["value"]) for o in observations if o["value"] not in ("", ".")]\<close>,
  left to right; the first failing element raises.
\<close>

fun parse_observations :: "parser \<Rightarrow> observation list \<Rightarrow> error + pyfloat list" where
  "parse_observations to_float [] = Inr []"
| "parse_observations to_float (ob # obs) =
     (case ob ''value'' of
        None \<Rightarrow> Inl KeyError
      | Some v \<Rightarrow>
          if v = [] \<or> v = ''.'' then parse_observations to_float obs
          else
            (case to_float v of
               Inl e \<Rightarrow> Inl e
             | Inr x \<Rightarrow>
                 (case parse_observations to_float obs of
                    Inl e \<Rightarrow> Inl e
                  | Inr xs \<Rightarrow> Inr (x # xs))))"

text \<open>
  \<^verbatim>\<open>year_avg\<close> is the same in both scripts, up to where the key comes from
  (a parameter in one, the global \<^verbatim>\<open>KEY\<close> in the other).
\<close>

definition year_avg :: "parser \<Rightarrow> network \<Rightarrow> string \<Rightarrow> int \<Rightarrow> string \<Rightarrow> error + pyfloat" where
  "year_avg to_float net series_id year key =
     (case net series_id year key of
        Inl e \<Rightarrow> Inl e
      | Inr observations \<Rightarrow>
          (case parse_observations to_float observations of
             Inl e \<Rightarrow> Inl e
           | Inr obs \<Rightarrow> Inr (if obs = [] then NaN else fdiv_len (fsum obs) (length obs))))"

section \<open>The credential and the run\<close>

text \<open>The environment is a dictionary of strings.\<close>

definition get_key :: "(string \<rightharpoonup> string) \<Rightarrow> error + string" where
  "get_key env =
     (case env ''FRED_API_KEY'' of
        None \<Rightarrow> Inl (SystemExit ''Set FRED_API_KEY in your environment (export FRED_API_KEY=...).'')
      | Some key \<Rightarrow>
          if key = [] then
            Inl (SystemExit ''Set FRED_API_KEY in your environment (export FRED_API_KEY=...).'')
          else Inr key)"

text \<open>The module-level check of \<^verbatim>\<open>personal_inflation.py\<close>.\<close>

definition load_KEY :: "(string \<rightharpoonup> string) \<Rightarrow> error + string" where
  "load_KEY env =
     (case env ''FRED_API_KEY'' of
        None \<Rightarrow> Inl (SystemExit ''Set FRED_API_KEY in your environment'')
      | Some key \<Rightarrow>
          if key = [] then Inl (SystemExit ''Set FRED_API_KEY in your environment'')
          else Inr key)"

text \<open>The catalog of \<^verbatim>\<open>personal_inflation_fred_plus.py\<close>: item, unit, series id.\<close>

definition SERIES :: "(string \<times> string \<times> string) list" where
  "SERIES =
     [(''Bread (white, pan)'', ''lb'', ''APU0000702111''),
      (''Chicken breast, boneless'', ''lb'', ''APU0000FF1101''),
      (''Rice, white, long-grain'', ''lb'', ''APU0000701312''),
      (''Coffee, ground'', ''lb'', ''APU0000717311''),
      (''Potatoes'', ''5 lb'', ''APU0000712112''),
      (''Bananas'', ''lb'', ''APU0000711211''),
      (''Peanut butter'', ''16 oz'', ''APU0000716141''),
      (''Eggs, large'', ''dozen'', ''APU0000708111''),
      (''Milk (whole)'', ''gallon'', ''APU0000709111''),
      (''Ground beef (100% beef)'', ''lb'', ''APU0000703112''),
      (''Electricity (residential)'', ''cents/kWh'', ''APU000072610''),
      (''Natural gas (residential), per therm'', ''$/therm'', ''APU000072620''),
      (''Gasoline, regular'', ''gallon'', ''APU000074714'')]"

text \<open>The catalog of \<^verbatim>\<open>personal_inflation.py\<close>.\<close>

definition SERIES_basic :: "(string \<times> string \<times> string) list" where
  "SERIES_basic =
     [(''Bread (white, pan)'', ''lb'', ''APU0000702111''),
      (''Chicken breast, boneless'', ''lb'', ''APU0000FF1101''),
      (''Rice, white, long-grain (uncooked)'', ''lb'', ''APU0000701312''),
      (''Coffee, ground (100%)'', ''lb'', ''APU0000717311''),
      (''Potatoes, white'', ''lb'', ''APU0000712112''),
      (''Bananas'', ''lb'', ''APU0000711211''),
      (''Peanut butter, creamy, all sizes'', ''lb'', ''APU0000716141''),
      (''Electricity (residential)'', ''cents/kWh'', ''APU000072610''),
      (''Natural gas (residential), per therm'', ''$/therm'', ''APU000072620''),
      (''Milk (whole)'', ''gallon'', ''APU0000709111''),
      (''Ground beef (100% beef)'', ''lb'', ''APU0000703112''),
      (''Eggs, large'', ''dozen'', ''APU0000708111'')]"

text \<open>
  The state of a run is the list of requests issued so far, each a series id and a
  year. The fetch loop of \<^verbatim>\<open>main\<close> in \<^verbatim>\<open>personal_inflation_fred_plus.py\<close> asks for
  year A and then year B of each catalog entry, and keeps the row for the
  statistics when \<^verbatim>\<open>a==a and b==b and a>0 and b>0\<close>: the kept values are finite
  and positive, so the rows for the statistics carry reals. An exception ends
  the run.
\<close>

type_synonym requests = "(string \<times> int) list"

fun keep_row :: "string \<Rightarrow> pyfloat \<Rightarrow> pyfloat \<Rightarrow> (string \<times> real \<times> real) list" where
  "keep_row item (Fin a) (Fin b) = (if 0 < a \<and> 0 < b then [(item, a, b)] else [])"
| "keep_row item _ _ = []"

fun fetch_rows ::
  "parser \<Rightarrow> network \<Rightarrow> string \<Rightarrow> int \<Rightarrow> int \<Rightarrow> (string \<times> string \<times> string) list \<Rightarrow>
   requests \<Rightarrow> (string \<times> real \<times> real) list \<Rightarrow>
   requests \<times> (error + (string \<times> real \<times> real) list)" where
  "fetch_rows to_float net key year_a year_b [] reqs rows_for_calc = (reqs, Inr rows_for_calc)"
| "fetch_rows to_float net key year_a year_b ((item, unit, sid) # series) reqs rows_for_calc =
     (case year_avg to_float net sid year_a key of
        Inl e \<Rightarrow> (reqs @ [(sid, year_a)], Inl e)
      | Inr a \<Rightarrow>
          (case year_avg to_float net sid year_b key of
             Inl e \<Rightarrow> (reqs @ [(sid, year_a), (sid, year_b)], Inl e)
           | Inr b \<Rightarrow>
               fetch_rows to_float net key year_a year_b series
                 (reqs @ [(sid, year_a), (sid, year_b)]) (rows_for_calc @ keep_row item a b)))"

text \<open>
  The parsed command line of \<^verbatim>\<open>personal_inflation_fred_plus.py\<close>.
  \<^verbatim>\<open>ArgumentParser.parse_args\<close> is library code and a parameter of the model: it
  returns the parsed arguments or ends the process (status 0 after printing the
  help, status 2 after a usage error).
\<close>

record args =
  arg_year_a :: int
  arg_year_b :: int
  arg_out :: string
  arg_plot :: bool
  arg_weighted :: bool
  arg_weights :: "string option"
  arg_print_weights :: bool

type_synonym arg_parser = "string list \<Rightarrow> error + args"

text \<open>
  \<^verbatim>\<open>main\<close> up to the rows for the statistics: the command line first, then the
  key, then the requests.
\<close>

definition main_fetch ::
  "arg_parser \<Rightarrow> string list \<Rightarrow> (string \<rightharpoonup> string) \<Rightarrow> parser \<Rightarrow> network \<Rightarrow>
   requests \<times> (error + (string \<times> real \<times> real) list)" where
  "main_fetch parse_args argv env to_float net =
     (case parse_args argv of
        Inl e \<Rightarrow> ([], Inl e)
      | Inr args \<Rightarrow>
          (case get_key env of
             Inl e \<Rightarrow> ([], Inl e)
           | Inr key \<Rightarrow>
               fetch_rows to_float net key (arg_year_a args) (arg_year_b args) SERIES [] []))"

text \<open>
  \<^verbatim>\<open>personal_inflation.py\<close>: the key is checked when the module is loaded, before
  \<^verbatim>\<open>main\<close> runs; \<^verbatim>\<open>main\<close> asks for 2000 and 2024 of each entry and writes one
  CSV row per entry.
\<close>

fun basic_rows ::
  "parser \<Rightarrow> network \<Rightarrow> string \<Rightarrow> (string \<times> string \<times> string) list \<Rightarrow> requests \<Rightarrow>
   (string \<times> string \<times> pyfloat \<times> pyfloat) list \<Rightarrow>
   requests \<times> (error + (string \<times> string \<times> pyfloat \<times> pyfloat) list)" where
  "basic_rows to_float net key [] reqs out = (reqs, Inr out)"
| "basic_rows to_float net key ((item, unit, sid) # series) reqs out =
     (case year_avg to_float net sid 2000 key of
        Inl e \<Rightarrow> (reqs @ [(sid, 2000)], Inl e)
      | Inr y2000 \<Rightarrow>
          (case year_avg to_float net sid 2024 key of
             Inl e \<Rightarrow> (reqs @ [(sid, 2000), (sid, 2024)], Inl e)
           | Inr y2024 \<Rightarrow>
               basic_rows to_float net key series
                 (reqs @ [(sid, 2000), (sid, 2024)]) (out @ [(item, unit, y2000, y2024)])))"

definition personal_inflation_run ::
  "(string \<rightharpoonup> string) \<Rightarrow> parser \<Rightarrow> network \<Rightarrow>
   requests \<times> (error + (string \<times> string \<times> pyfloat \<times> pyfloat) list)" where
  "personal_inflation_run env to_float net =
     (case load_KEY env of
        Inl e \<Rightarrow> ([], Inl e)
      | Inr key \<Rightarrow> basic_rows to_float net key SERIES_basic [] [])"

text \<open>
  The exit status of the process: \<^verbatim>\<open>sys.exit\<close> with a string prints the string on
  the error stream and exits with status 1, \<^verbatim>\<open>sys.exit\<close> with a number exits with
  that status, an uncaught exception exits with status 1 after a traceback, a
  run that returns exits with status 0.
\<close>

fun exit_status :: "error + 'a \<Rightarrow> nat" where
  "exit_status (Inl (SystemExitStatus n)) = n"
| "exit_status (Inl e) = 1"
| "exit_status (Inr v) = 0"

fun exit_message :: "error + 'a \<Rightarrow> string option" where
  "exit_message (Inl (SystemExit msg)) = Some msg"
| "exit_message _ = None"

section \<open>Top movers\<close>

text \<open>
  \<^verbatim>\<open>sorted\<close> is stable, also with \<^verbatim>\<open>reverse=True\<close>: rows with equal keys keep
  their order. \<^const>\<open>sort_key\<close> is a stable sort into ascending keys, so the
  descending sort is \<^const>\<open>sort_key\<close> on the negated key. \<^verbatim>\<open>[:5]\<close> is
  \<^term>\<open>take 5\<close>.
\<close>

definition pct_changes :: "(string \<times> real \<times> real) list \<Rightarrow> real list" where
  "pct_changes rows_for_calc = map (\<lambda>(_, a, b). b / a - 1) rows_for_calc"

definition top_increases :: "(string \<times> real \<times> real) list \<Rightarrow> (string \<times> real) list" where
  "top_increases rows_for_calc =
     take 5 (sort_key (\<lambda>t. - snd t) (zip (map fst rows_for_calc) (pct_changes rows_for_calc)))"

definition top_decreases :: "(string \<times> real \<times> real) list \<Rightarrow> (string \<times> real) list" where
  "top_decreases rows_for_calc =
     take 5 (sort_key snd (zip (map fst rows_for_calc) (pct_changes rows_for_calc)))"

section \<open>Notions of the specification\<close>

text \<open>The relatives of the usable rows, in row order.\<close>

definition usable_rels :: "row list \<Rightarrow> real list" where
  "usable_rels rows = List.map_filter (\<lambda>(_, a, b). relative a b) rows"

text \<open>
  The relatives of the usable rows that \<^verbatim>\<open>categorize_item\<close> puts in category \<open>c\<close>,
  in row order: the usable members of \<open>c\<close>.
\<close>

definition category_rels :: "row list \<Rightarrow> string \<Rightarrow> real list" where
  "category_rels rows c =
     List.map_filter (\<lambda>(item, a, b). if categorize_item item = c then relative a b else None) rows"

text \<open>The present categories: those with a weight and at least one usable member.\<close>

definition present_cats :: "(string \<rightharpoonup> real) \<Rightarrow> row list \<Rightarrow> string set" where
  "present_cats cat_weights rows =
     {c \<in> categorize_item ` fst ` set rows. cat_weights c \<noteq> None \<and> category_rels rows c \<noteq> []}"

text \<open>The relatives recorded for a category in \<^verbatim>\<open>by_cat\<close>, none if the key is absent.\<close>

definition rels_of :: "by_cat \<Rightarrow> string \<Rightarrow> real list" where
  "rels_of m c = (case map_of m c of Some rels \<Rightarrow> rels | None \<Rightarrow> [])"

text \<open>A rule matches a lower-cased name when one of its keywords is a substring of it.\<close>

definition rule_matches :: "string \<Rightarrow> string \<times> string list \<Rightarrow> bool" where
  "rule_matches n rule = list_ex (\<lambda>needle. sublist needle n) (snd rule)"

text \<open>Rows without the items that \<^verbatim>\<open>categorize_item\<close> leaves unclassified.\<close>

definition classified_rows :: "row list \<Rightarrow> row list" where
  "classified_rows rows = filter (\<lambda>(item, a, b). categorize_item item \<noteq> ''unclassified'') rows"

text \<open>Each item of the rows for the statistics with its percentage change, in catalog order.\<close>

definition item_changes :: "(string \<times> real \<times> real) list \<Rightarrow> (string \<times> real) list" where
  "item_changes rows_for_calc = map (\<lambda>(item, a, b). (item, b / a - 1)) rows_for_calc"

section \<open>Properties of the unweighted statistics\<close>

lemma py_sum_foldl: "foldl (+) (s::real) xs = s + sum_list xs"
  by (induction xs arbitrary: s) simp_all

lemma py_sum_sum_list: "py_sum xs = sum_list xs"
  by (simp add: py_sum_def py_sum_foldl)

lemma collect_rels_acc: "collect_rels rows rels = rels @ usable_rels rows"
  by (induction rows rels rule: collect_rels.induct)
     (simp_all add: usable_rels_def List.map_filter_simps split: option.splits)

lemma collect_rels_usable: "collect_rels rows [] = usable_rels rows"
  by (simp add: collect_rels_acc)

lemma compute_unweighted_usable_rels:
  "compute_unweighted rows =
     (if usable_rels rows = [] then (NaN, NaN)
      else (Fin (sum_list (map (\<lambda>r. r - 1) (usable_rels rows)) / real (length (usable_rels rows))),
            Fin (exp (sum_list (map ln (usable_rels rows)) / real (length (usable_rels rows))) - 1)))"
  by (simp add: compute_unweighted_def collect_rels_usable py_sum_sum_list Let_def)

section \<open>Properties of the purchasing-power transform\<close>

text \<open>
  C8. For every finite non-negative percentage change \<open>p\<close>,
  \<^verbatim>\<open>purchasing_power_after\<close> returns the remaining purchasing power \<open>1 / (1 + p)\<close>
  and the loss, one minus the remaining power, so the two add up to one; when
  \<open>p\<close> is not-a-number, both components of the result are not-a-number.
\<close>

theorem purchasing_power_after_spec:
  "(0 \<le> p \<longrightarrow>
      (\<exists>remaining loss.
         purchasing_power_after (Some (Fin p)) = Inr (Fin remaining, Fin loss)
         \<and> remaining = 1 / (1 + p) \<and> loss = 1 - remaining \<and> remaining + loss = 1))
   \<and> purchasing_power_after (Some NaN) = Inr (NaN, NaN)"
  by (simp add: Let_def)

theorem purchasing_power_after_spec_witness:
  "(0::real) \<le> 1 / 4
   \<and> purchasing_power_after (Some (Fin (1 / 4))) = Inr (Fin (4 / 5), Fin (1 / 5))"
  using purchasing_power_after_spec [of "1 / 4"] by simp

section \<open>The division of the purchasing-power transform\<close>


section \<open>Properties of the weighted index\<close>

lemma rels_of_Nil: "rels_of [] c = []"
  by (simp add: rels_of_def)

lemma map_of_setdefault_append:
  "map_of (setdefault_append c r m) k = (if k = c then Some (rels_of m c @ [r]) else map_of m k)"
  by (induction c r m rule: setdefault_append.induct) (auto simp: rels_of_def)

lemma rels_of_setdefault_append:
  "rels_of (setdefault_append c r m) k = (if k = c then rels_of m c @ [r] else rels_of m k)"
  by (simp add: rels_of_def map_of_setdefault_append)

lemma nonempty_setdefault_append:
  "\<forall>(k, rels) \<in> set m. rels \<noteq> [] \<Longrightarrow> \<forall>(k, rels) \<in> set (setdefault_append c r m). rels \<noteq> []"
  by (induction c r m rule: setdefault_append.induct) auto

lemma category_rels_Nil: "category_rels [] c = []"
  by (simp add: category_rels_def List.map_filter_simps)

lemma category_rels_Cons:
  "category_rels ((item, a, b) # rows) c =
     (if categorize_item item = c
      then (case relative a b of Some r \<Rightarrow> r # category_rels rows c | None \<Rightarrow> category_rels rows c)
      else category_rels rows c)"
  by (simp add: category_rels_def List.map_filter_simps split: option.splits)

lemma rels_of_build_by_cat:
  "rels_of (build_by_cat cw rows m) c =
     rels_of m c @ (if cw c = None then [] else category_rels rows c)"
proof (induction cw rows m rule: build_by_cat.induct)
  case (1 cw m)
  then show ?case by (simp add: category_rels_Nil)
next
  case (2 cw item a b rows m)
  then show ?case
    by (auto simp: category_rels_Cons rels_of_setdefault_append split: option.splits)
qed

lemma nonempty_build_by_cat:
  "\<forall>(k, rels) \<in> set m. rels \<noteq> [] \<Longrightarrow> \<forall>(k, rels) \<in> set (build_by_cat cw rows m). rels \<noteq> []"
proof (induction cw rows m rule: build_by_cat.induct)
  case (1 cw m)
  then show ?case by simp
next
  case (2 cw item a b rows m)
  then show ?case
    using nonempty_setdefault_append [of m "categorize_item item"]
    by (simp split: option.splits)
qed

lemma category_rels_in_rows:
  "category_rels rows c \<noteq> [] \<Longrightarrow> c \<in> categorize_item ` fst ` set rows"
proof (induction rows)
  case Nil
  then show ?case by (simp add: category_rels_Nil)
next
  case (Cons row rows)
  obtain item a b where row: "row = (item, a, b)" by (cases row) auto
  show ?case
  proof (cases "categorize_item item = c")
    case True
    then show ?thesis by (auto simp: row image_iff)
  next
    case False
    with Cons show ?thesis by (auto simp: row category_rels_Cons)
  qed
qed

lemma key_iff_rels_of:
  assumes "\<forall>(k, rels) \<in> set m. rels \<noteq> []"
  shows "c \<in> fst ` set m \<longleftrightarrow> rels_of m c \<noteq> []"
proof
  assume "c \<in> fst ` set m"
  then obtain rels where "map_of m c = Some rels"
    by (metis domD dom_map_of_conv_image_fst)
  moreover from this have "(c, rels) \<in> set m" by (rule map_of_SomeD)
  ultimately show "rels_of m c \<noteq> []" using assms by (auto simp: rels_of_def)
next
  assume "rels_of m c \<noteq> []"
  then have "map_of m c \<noteq> None" by (auto simp: rels_of_def split: option.splits)
  then show "c \<in> fst ` set m" by (metis domIff dom_map_of_conv_image_fst)
qed

lemma keys_build_by_cat:
  "fst ` set (build_by_cat cw rows []) = present_cats cw rows"
proof -
  have ne: "\<forall>(k, rels) \<in> set (build_by_cat cw rows []). rels \<noteq> []"
    by (rule nonempty_build_by_cat) simp
  have "c \<in> fst ` set (build_by_cat cw rows []) \<longleftrightarrow> c \<in> present_cats cw rows" for c
    unfolding key_iff_rels_of [OF ne] rels_of_build_by_cat
    using category_rels_in_rows [of rows c]
    by (auto simp: rels_of_def present_cats_def)
  then show ?thesis by blast
qed

lemma present_keys:
  "set (map fst (build_by_cat cw rows [])) = present_cats cw rows"
  using keys_build_by_cat [of cw rows] by simp

lemma compute_weighted_empty:
  "present_cats cw rows = {} \<Longrightarrow> compute_weighted rows cw = Inr (NaN, [])"
  using present_keys [of cw rows] by (simp add: compute_weighted_def)

section \<open>Categories of catalog items\<close>

lemma cat_bread: "categorize_item ''Bread (white, pan)'' = ''food_at_home''"
  by code_simp

lemma cat_milk: "categorize_item ''Milk (whole)'' = ''food_at_home''"
  by code_simp

lemma cat_electricity: "categorize_item ''Electricity (residential)'' = ''utilities_electric''"
  by code_simp

lemma cat_gasoline: "categorize_item ''Gasoline, regular'' = ''transport_fuel''"
  by code_simp

lemma cat_X: "categorize_item ''X'' = ''unclassified''"
  by code_simp

lemma categorize_rules_range:
  "categorize_rules n rules \<in> insert ''unclassified'' (fst ` set rules)"
  by (induction n rules rule: categorize_rules.induct) auto

lemma categorize_item_range:
  "categorize_item name \<in>
     {''unclassified'', ''food_at_home'', ''utilities_electric'', ''utilities_gas'', ''transport_fuel''}"
  using categorize_rules_range [of "lower name" CATEGORY_KEYWORDS]
  by (simp add: categorize_item_def CATEGORY_KEYWORDS_def)

lemma scenario_keys_never_present:
  "compute_weighted rows [''food'' \<mapsto> 0.6, ''fuel'' \<mapsto> 0.4] = Inr (NaN, [])"
proof -
  have nf: "''food'' \<noteq> categorize_item a" "''fuel'' \<noteq> categorize_item a" for a
    using categorize_item_range [of a] by auto
  have "present_cats [''food'' \<mapsto> 0.6, ''fuel'' \<mapsto> 0.4] rows = {}"
    by (auto simp: present_cats_def nf)
  then show ?thesis by (rule compute_weighted_empty)
qed

section \<open>The division by the total weight\<close>

text \<open>
  C2. The claim is that \<^verbatim>\<open>compute_weighted\<close> returns the weighted percentage
  change, the sum over the present categories of the normalized weight times the
  category's mean change, whenever a mapped category has a usable member. The
  division by \<^verbatim>\<open>total_w\<close> has no guard: with one usable bread row and the weight
  \<open>0\<close> for its category the function raises \<^verbatim>\<open>ZeroDivisionError\<close> and returns
  nothing, where the same row under the weight \<open>1\<close> gives the change \<open>1\<close>.
\<close>

theorem compute_weighted_zero_weight_raises:
  "usable (Fin 1) (Fin 2)
   \<and> [''food_at_home'' \<mapsto> 0::real] (categorize_item ''Bread (white, pan)'') = Some 0
   \<and> compute_weighted [(''Bread (white, pan)'', Fin 1, Fin 2)] [''food_at_home'' \<mapsto> 0] =
       Inl ZeroDivisionError
   \<and> compute_weighted [(''Bread (white, pan)'', Fin 1, Fin 2)] [''food_at_home'' \<mapsto> 1] =
       Inr (Fin 1, [(''food_at_home'', 1)])"
  by (simp add: compute_weighted_def cat_bread usable_def py_sum_def Let_def)

text \<open>
  C3. The claim is that the normalized category-weight mapping returned by
  \<^verbatim>\<open>compute_weighted\<close> sums to one over the present categories for every input
  weight mapping. With an electricity row and a gasoline row, both usable, and
  the weight \<open>0\<close> for both categories, no mapping is returned: the same division
  by the zero total raises. Under the default weights the same rows give the
  weights \<open>1 / 2\<close> and \<open>1 / 2\<close>.
\<close>

theorem normalized_weights_zero_total_raises:
  "usable (Fin 10) (Fin 15) \<and> usable (Fin 2) (Fin 3)
   \<and> [''utilities_electric'' \<mapsto> 0::real, ''transport_fuel'' \<mapsto> 0]
        (categorize_item ''Electricity (residential)'') = Some 0
   \<and> [''utilities_electric'' \<mapsto> 0::real, ''transport_fuel'' \<mapsto> 0]
        (categorize_item ''Gasoline, regular'') = Some 0
   \<and> compute_weighted
       [(''Electricity (residential)'', Fin 10, Fin 15), (''Gasoline, regular'', Fin 2, Fin 3)]
       [''utilities_electric'' \<mapsto> 0, ''transport_fuel'' \<mapsto> 0] = Inl ZeroDivisionError
   \<and> compute_weighted
       [(''Electricity (residential)'', Fin 10, Fin 15), (''Gasoline, regular'', Fin 2, Fin 3)]
       DEFAULT_WEIGHTS =
       Inr (Fin (1 / 2), [(''utilities_electric'', 1 / 2), (''transport_fuel'', 1 / 2)])"
  by (simp add: compute_weighted_def cat_electricity cat_gasoline usable_def py_sum_def Let_def
      DEFAULT_WEIGHTS_def)

section \<open>No usable rows\<close>

lemma relative_not_usable: "\<not> usable a b \<Longrightarrow> relative a b = None"
  by (cases a; cases b) simp_all

lemma usable_rels_none:
  "\<forall>(item, a, b) \<in> set rows. \<not> usable a b \<Longrightarrow> usable_rels rows = []"
  by (induction rows) (auto simp: usable_rels_def List.map_filter_simps relative_not_usable)

lemma category_rels_none:
  "\<forall>(item, a, b) \<in> set rows. \<not> usable a b \<Longrightarrow> category_rels rows c = []"
  by (induction rows) (auto simp: category_rels_Nil category_rels_Cons relative_not_usable)

text \<open>
  C7. When no row is usable (both values present and strictly positive),
  \<^verbatim>\<open>compute_unweighted\<close> returns not-a-number for both the arithmetic and the
  geometric measure and \<^verbatim>\<open>compute_weighted\<close> returns not-a-number for the weighted
  measure; none of the three is zero and \<^verbatim>\<open>compute_weighted\<close> does not raise
  (\<^verbatim>\<open>compute_unweighted\<close> has no raising branch).
\<close>

theorem empty_usable_rows_not_a_number:
  "(\<forall>(item, a, b) \<in> set rows. \<not> usable a b) \<longrightarrow>
     compute_unweighted rows = (NaN, NaN)
     \<and> compute_weighted rows cat_weights = Inr (NaN, [])
     \<and> fst (compute_unweighted rows) \<noteq> Fin 0
     \<and> snd (compute_unweighted rows) \<noteq> Fin 0
     \<and> (\<forall>e. compute_weighted rows cat_weights \<noteq> Inl e)
     \<and> (\<forall>norm_w. compute_weighted rows cat_weights \<noteq> Inr (Fin 0, norm_w))"
proof
  assume h: "\<forall>(item, a, b) \<in> set rows. \<not> usable a b"
  have u: "compute_unweighted rows = (NaN, NaN)"
    using usable_rels_none [OF h] by (simp add: compute_unweighted_usable_rels)
  have "present_cats cat_weights rows = {}"
    using category_rels_none [OF h] by (simp add: present_cats_def)
  then have w: "compute_weighted rows cat_weights = Inr (NaN, [])"
    by (rule compute_weighted_empty)
  show "compute_unweighted rows = (NaN, NaN)
     \<and> compute_weighted rows cat_weights = Inr (NaN, [])
     \<and> fst (compute_unweighted rows) \<noteq> Fin 0
     \<and> snd (compute_unweighted rows) \<noteq> Fin 0
     \<and> (\<forall>e. compute_weighted rows cat_weights \<noteq> Inl e)
     \<and> (\<forall>norm_w. compute_weighted rows cat_weights \<noteq> Inr (Fin 0, norm_w))"
    by (simp add: u w)
qed

theorem empty_usable_rows_not_a_number_witness:
  "list_all (\<lambda>(item, a, b). \<not> usable a b)
     [(''Bread (white, pan)'', NaN, Fin 2), (''Milk (whole)'', Fin 0, Fin 3),
      (''Gasoline, regular'', Fin 2, Fin (- 1))]
   \<and> compute_unweighted [(''Bread (white, pan)'', NaN, Fin 2), (''Milk (whole)'', Fin 0, Fin 3),
        (''Gasoline, regular'', Fin 2, Fin (- 1))] = (NaN, NaN)
   \<and> compute_weighted [(''Bread (white, pan)'', NaN, Fin 2), (''Milk (whole)'', Fin 0, Fin 3),
        (''Gasoline, regular'', Fin 2, Fin (- 1))] DEFAULT_WEIGHTS = Inr (NaN, [])"
  using empty_usable_rows_not_a_number
    [of "[(''Bread (white, pan)'', NaN, Fin 2), (''Milk (whole)'', Fin 0, Fin 3),
        (''Gasoline, regular'', Fin 2, Fin (- 1))]" DEFAULT_WEIGHTS]
  by (simp add: usable_def)

section \<open>Categorization and the unclassified items\<close>

lemma any_needle_list_ex: "any_needle n needles = list_ex (\<lambda>needle. sublist needle n) needles"
  by (induction needles) simp_all

lemma categorize_rules_no_match:
  "\<forall>rule \<in> set rules. \<not> rule_matches n rule \<Longrightarrow> categorize_rules n rules = ''unclassified''"
  by (induction n rules rule: categorize_rules.induct)
     (simp_all add: rule_matches_def any_needle_list_ex)

lemma categorize_rules_first_match:
  "\<forall>rule \<in> set pre. \<not> rule_matches n rule \<Longrightarrow> rule_matches n (cat, needles) \<Longrightarrow>
   categorize_rules n (pre @ (cat, needles) # post) = cat"
  by (induction pre) (auto simp: rule_matches_def any_needle_list_ex)

lemma build_by_cat_classified:
  "cw ''unclassified'' = None \<Longrightarrow>
   build_by_cat cw (classified_rows rows) m = build_by_cat cw rows m"
  by (induction cw rows m rule: build_by_cat.induct)
     (auto simp: classified_rows_def split: option.splits)

lemma compute_weighted_classified:
  "cw ''unclassified'' = None \<Longrightarrow>
   compute_weighted (classified_rows rows) cw = compute_weighted rows cw"
  by (simp add: compute_weighted_def build_by_cat_classified)

text \<open>
  C4. The claim is that \<^verbatim>\<open>categorize_item\<close> gives a name the category of the first
  rule with a keyword in the lower-cased name, and \<open>unclassified\<close> when no rule
  matches, and that items in the \<open>unclassified\<close> category are excluded from the
  weighted index for every input; the source says of \<open>unclassified\<close> that it
  \<^verbatim>\<open>won't be used in weighted calc\<close>. \<^verbatim>\<open>compute_weighted\<close> only tests
  \<^verbatim>\<open>cat not in cat_weights\<close>: under a weight mapping with the key \<open>unclassified\<close>
  the unclassified item \<open>X\<close> is used, and the index is \<open>2\<close> where it is \<open>1\<close>
  without the item.
\<close>

theorem unclassified_item_enters_index:
  "categorize_item ''X'' = ''unclassified''
   \<and> compute_weighted [(''X'', Fin 1, Fin 4), (''Bread (white, pan)'', Fin 1, Fin 2)]
        [''food_at_home'' \<mapsto> 1, ''unclassified'' \<mapsto> 1] =
      Inr (Fin 2, [(''unclassified'', 1 / 2), (''food_at_home'', 1 / 2)])
   \<and> compute_weighted [(''Bread (white, pan)'', Fin 1, Fin 2)]
        [''food_at_home'' \<mapsto> 1, ''unclassified'' \<mapsto> 1] =
      Inr (Fin 1, [(''food_at_home'', 1)])"
  by (simp add: compute_weighted_def cat_X cat_bread usable_def py_sum_def Let_def)

section \<open>Properties of the top movers\<close>

lemma zip_item_changes:
  "zip (map fst rows) (pct_changes rows) = item_changes rows"
  by (induction rows) (auto simp: pct_changes_def item_changes_def)

lemma length_take_sort_key: "length (take n (sort_key f xs)) = min n (length xs)"
  by simp

lemma sorted_take_sort_key:
  fixes f :: "'a \<Rightarrow> real"
  shows "sorted (map f (take n (sort_key f xs)))"
proof -
  have "sorted (map f (take n (sort_key f xs) @ drop n (sort_key f xs)))"
    by (simp only: append_take_drop_id sorted_sort_key)
  then show ?thesis by (simp only: map_append sorted_append)
qed

lemma mset_take_sort_key: "mset (take n (sort_key f xs)) \<subseteq># mset xs"
proof -
  have "mset xs = mset (take n (sort_key f xs)) + mset (drop n (sort_key f xs))"
    by (metis append_take_drop_id mset_append mset_sort)
  then show ?thesis by (simp only: mset_subset_eq_add_left)
qed

lemma rest_take_sort_key:
  fixes f :: "'a \<Rightarrow> real"
  assumes "s \<in> set (take n (sort_key f xs))"
    and "t \<in># mset xs - mset (take n (sort_key f xs))"
  shows "f s \<le> f t"
proof -
  let ?ys = "sort_key f xs"
  have "mset xs = mset (take n ?ys) + mset (drop n ?ys)"
    by (metis append_take_drop_id mset_append mset_sort)
  then have "mset xs - mset (take n ?ys) = mset (drop n ?ys)" by simp
  with assms(2) have t: "t \<in> set (drop n ?ys)" by simp
  have "sorted (map f (take n ?ys) @ map f (drop n ?ys))"
    by (simp only: map_append [symmetric] append_take_drop_id sorted_sort_key)
  then have "\<forall>x \<in> set (map f (take n ?ys)). \<forall>y \<in> set (map f (drop n ?ys)). x \<le> y"
    unfolding sorted_append by blast
  with assms(1) t show ?thesis by simp
qed

lemma ties_take_sort_key:
  "prefix (filter (\<lambda>t. f t = k) (take n (sort_key f xs))) (filter (\<lambda>t. f t = k) xs)"
proof -
  let ?ys = "sort_key f xs"
  have "filter (\<lambda>t. f t = k) xs =
        filter (\<lambda>t. f t = k) (take n ?ys) @ filter (\<lambda>t. f t = k) (drop n ?ys)"
    by (metis append_take_drop_id filter_append sort_key_stable)
  then show ?thesis by (rule prefixI)
qed

text \<open>
  C5, as amended. For every list of usable rows, the reported top increases are the
  first five (all, if there are fewer) of the items in descending order of the
  percentage change \<open>b / a - 1\<close>, and the reported top decreases the first five in
  ascending order, whatever the sign of the changes: each list is ordered, is
  drawn from the items with their changes, no item left out has a larger
  (respectively smaller) change than a reported one, and among items of equal
  change the earlier ones in catalog order are reported, in catalog order (the
  sorts are stable).
\<close>

theorem top_movers_spec:
  "(\<forall>(item, a, b) \<in> set rows. 0 < a \<and> 0 < b) \<longrightarrow>
   length (top_increases rows) = min 5 (length rows)
   \<and> sorted_wrt (\<lambda>s t. snd t \<le> snd s) (top_increases rows)
   \<and> mset (top_increases rows) \<subseteq># mset (item_changes rows)
   \<and> (\<forall>s \<in> set (top_increases rows).
        \<forall>t \<in># mset (item_changes rows) - mset (top_increases rows). snd t \<le> snd s)
   \<and> (\<forall>k. prefix (filter (\<lambda>t. snd t = k) (top_increases rows))
               (filter (\<lambda>t. snd t = k) (item_changes rows)))
   \<and> length (top_decreases rows) = min 5 (length rows)
   \<and> sorted_wrt (\<lambda>s t. snd s \<le> snd t) (top_decreases rows)
   \<and> mset (top_decreases rows) \<subseteq># mset (item_changes rows)
   \<and> (\<forall>s \<in> set (top_decreases rows).
        \<forall>t \<in># mset (item_changes rows) - mset (top_decreases rows). snd s \<le> snd t)
   \<and> (\<forall>k. prefix (filter (\<lambda>t. snd t = k) (top_decreases rows))
               (filter (\<lambda>t. snd t = k) (item_changes rows)))"
proof -
  let ?ps = "item_changes rows"
  let ?neg = "\<lambda>t :: string \<times> real. - snd t"
  have ti: "top_increases rows = take 5 (sort_key ?neg ?ps)"
    by (simp add: top_increases_def zip_item_changes)
  have td: "top_decreases rows = take 5 (sort_key snd ?ps)"
    by (simp add: top_decreases_def zip_item_changes)
  have len: "length ?ps = length rows" by (simp add: item_changes_def)
  have i1: "length (top_increases rows) = min 5 (length rows)"
    by (simp add: ti len)
  have "sorted (map ?neg (top_increases rows))"
    unfolding ti by (rule sorted_take_sort_key)
  then have i2: "sorted_wrt (\<lambda>s t. snd t \<le> snd s) (top_increases rows)"
    by (simp add: sorted_map)
  have i3: "mset (top_increases rows) \<subseteq># mset ?ps"
    unfolding ti by (rule mset_take_sort_key)
  have i4: "\<forall>s \<in> set (top_increases rows). \<forall>t \<in># mset ?ps - mset (top_increases rows). snd t \<le> snd s"
    unfolding ti using rest_take_sort_key [of _ 5 ?neg ?ps] by fastforce
  have i5: "prefix (filter (\<lambda>t. snd t = k) (top_increases rows)) (filter (\<lambda>t. snd t = k) ?ps)" for k
    unfolding ti using ties_take_sort_key [of ?neg "- k" 5 ?ps]
    by (simp add: neg_equal_iff_equal)
  have d1: "length (top_decreases rows) = min 5 (length rows)"
    by (simp add: td len)
  have "sorted (map snd (top_decreases rows))"
    unfolding td by (rule sorted_take_sort_key)
  then have d2: "sorted_wrt (\<lambda>s t. snd s \<le> snd t) (top_decreases rows)"
    by (simp add: sorted_map)
  have d3: "mset (top_decreases rows) \<subseteq># mset ?ps"
    unfolding td by (rule mset_take_sort_key)
  have d4: "\<forall>s \<in> set (top_decreases rows). \<forall>t \<in># mset ?ps - mset (top_decreases rows). snd s \<le> snd t"
    unfolding td using rest_take_sort_key [of _ 5 snd ?ps] by fastforce
  have d5: "prefix (filter (\<lambda>t. snd t = k) (top_decreases rows)) (filter (\<lambda>t. snd t = k) ?ps)" for k
    unfolding td by (rule ties_take_sort_key)
  from i1 i2 i3 i4 i5 d1 d2 d3 d4 d5 show ?thesis
    by blast
qed

lemma top_movers_example:
  "item_changes [(''A'', 1, 2), (''B'', 1, 3), (''C'', 2, 1), (''D'', 1, 2), (''E'', 4, 1), (''F'', 1, 1), (''G'', 2, 1)] =
     [(''A'', 1), (''B'', 2), (''C'', - 1 / 2), (''D'', 1), (''E'', - 3 / 4), (''F'', 0), (''G'', - 1 / 2)]"
  "top_increases [(''A'', 1, 2), (''B'', 1, 3), (''C'', 2, 1), (''D'', 1, 2), (''E'', 4, 1), (''F'', 1, 1), (''G'', 2, 1)] = [(''B'', 2), (''A'', 1), (''D'', 1), (''F'', 0), (''C'', - 1 / 2)]"
  "top_decreases [(''A'', 1, 2), (''B'', 1, 3), (''C'', 2, 1), (''D'', 1, 2), (''E'', 4, 1), (''F'', 1, 1), (''G'', 2, 1)] = [(''E'', - 3 / 4), (''C'', - 1 / 2), (''G'', - 1 / 2), (''F'', 0), (''A'', 1)]"
  by (simp_all add: item_changes_def top_increases_def top_decreases_def pct_changes_def)

theorem top_movers_spec_witness:
  "list_all (\<lambda>(item, a, b). 0 < a \<and> 0 < b)
     ([(''A'', 1, 2), (''B'', 1, 3), (''C'', 2, 1), (''D'', 1, 2), (''E'', 4, 1),
       (''F'', 1, 1), (''G'', 2, 1)] :: (string \<times> real \<times> real) list)
   \<and> top_increases [(''A'', 1, 2), (''B'', 1, 3), (''C'', 2, 1), (''D'', 1, 2), (''E'', 4, 1), (''F'', 1, 1), (''G'', 2, 1)] = [(''B'', 2), (''A'', 1), (''D'', 1), (''F'', 0), (''C'', - 1 / 2)]
   \<and> top_decreases [(''A'', 1, 2), (''B'', 1, 3), (''C'', 2, 1), (''D'', 1, 2), (''E'', 4, 1), (''F'', 1, 1), (''G'', 2, 1)] = [(''E'', - 3 / 4), (''C'', - 1 / 2), (''G'', - 1 / 2), (''F'', 0), (''A'', 1)]
   \<and> mset (item_changes [(''A'', 1, 2), (''B'', 1, 3), (''C'', 2, 1), (''D'', 1, 2), (''E'', 4, 1), (''F'', 1, 1), (''G'', 2, 1)]) - mset (top_increases [(''A'', 1, 2), (''B'', 1, 3), (''C'', 2, 1), (''D'', 1, 2), (''E'', 4, 1), (''F'', 1, 1), (''G'', 2, 1)]) = {#(''E'', - 3 / 4), (''G'', - 1 / 2)#}
   \<and> mset (item_changes [(''A'', 1, 2), (''B'', 1, 3), (''C'', 2, 1), (''D'', 1, 2), (''E'', 4, 1), (''F'', 1, 1), (''G'', 2, 1)]) - mset (top_decreases [(''A'', 1, 2), (''B'', 1, 3), (''C'', 2, 1), (''D'', 1, 2), (''E'', 4, 1), (''F'', 1, 1), (''G'', 2, 1)]) = {#(''B'', 2), (''D'', 1)#}
   \<and> list_all (\<lambda>s. list_all (\<lambda>t. snd t \<le> snd s) [(''E'', - 3 / 4), (''G'', - 1 / 2)])
        (top_increases [(''A'', 1, 2), (''B'', 1, 3), (''C'', 2, 1), (''D'', 1, 2), (''E'', 4, 1), (''F'', 1, 1), (''G'', 2, 1)])
   \<and> list_all (\<lambda>s. list_all (\<lambda>t. snd s \<le> snd t) [(''B'', 2), (''D'', 1)])
        (top_decreases [(''A'', 1, 2), (''B'', 1, 3), (''C'', 2, 1), (''D'', 1, 2), (''E'', 4, 1), (''F'', 1, 1), (''G'', 2, 1)])
   \<and> prefix (filter (\<lambda>t. snd t = - 1 / 2) (top_increases [(''A'', 1, 2), (''B'', 1, 3), (''C'', 2, 1), (''D'', 1, 2), (''E'', 4, 1), (''F'', 1, 1), (''G'', 2, 1)]))
        (filter (\<lambda>t. snd t = - 1 / 2) (item_changes [(''A'', 1, 2), (''B'', 1, 3), (''C'', 2, 1), (''D'', 1, 2), (''E'', 4, 1), (''F'', 1, 1), (''G'', 2, 1)]))
   \<and> prefix (filter (\<lambda>t. snd t = 1) (top_decreases [(''A'', 1, 2), (''B'', 1, 3), (''C'', 2, 1), (''D'', 1, 2), (''E'', 4, 1), (''F'', 1, 1), (''G'', 2, 1)]))
        (filter (\<lambda>t. snd t = 1) (item_changes [(''A'', 1, 2), (''B'', 1, 3), (''C'', 2, 1), (''D'', 1, 2), (''E'', 4, 1), (''F'', 1, 1), (''G'', 2, 1)]))"
proof -
  have m1: "mset (item_changes [(''A'', 1, 2), (''B'', 1, 3), (''C'', 2, 1), (''D'', 1, 2), (''E'', 4, 1), (''F'', 1, 1), (''G'', 2, 1)]) - mset (top_increases [(''A'', 1, 2), (''B'', 1, 3), (''C'', 2, 1), (''D'', 1, 2), (''E'', 4, 1), (''F'', 1, 1), (''G'', 2, 1)]) = {#(''E'', - 3 / 4), (''G'', - 1 / 2)#}"
    by (simp add: top_movers_example)
  have m2: "mset (item_changes [(''A'', 1, 2), (''B'', 1, 3), (''C'', 2, 1), (''D'', 1, 2), (''E'', 4, 1), (''F'', 1, 1), (''G'', 2, 1)]) - mset (top_decreases [(''A'', 1, 2), (''B'', 1, 3), (''C'', 2, 1), (''D'', 1, 2), (''E'', 4, 1), (''F'', 1, 1), (''G'', 2, 1)]) = {#(''B'', 2), (''D'', 1)#}"
    by (simp add: top_movers_example)
  have h: "\<forall>(item, a, b) \<in> set ([(''A'', 1, 2), (''B'', 1, 3), (''C'', 2, 1), (''D'', 1, 2), (''E'', 4, 1), (''F'', 1, 1), (''G'', 2, 1)] :: (string \<times> real \<times> real) list). 0 < a \<and> 0 < b"
    by simp
  note inst = top_movers_spec [of "[(''A'', 1, 2), (''B'', 1, 3), (''C'', 2, 1), (''D'', 1, 2), (''E'', 4, 1), (''F'', 1, 1), (''G'', 2, 1)]", THEN mp, OF h]
  have l: "list_all (\<lambda>(item, a, b). 0 < a \<and> 0 < b) ([(''A'', 1, 2), (''B'', 1, 3), (''C'', 2, 1), (''D'', 1, 2), (''E'', 4, 1), (''F'', 1, 1), (''G'', 2, 1)] :: (string \<times> real \<times> real) list)"
    by simp
  have i4: "\<forall>s \<in> set (top_increases [(''A'', 1, 2), (''B'', 1, 3), (''C'', 2, 1), (''D'', 1, 2), (''E'', 4, 1), (''F'', 1, 1), (''G'', 2, 1)]).
      \<forall>t \<in># mset (item_changes [(''A'', 1, 2), (''B'', 1, 3), (''C'', 2, 1), (''D'', 1, 2), (''E'', 4, 1), (''F'', 1, 1), (''G'', 2, 1)]) - mset (top_increases [(''A'', 1, 2), (''B'', 1, 3), (''C'', 2, 1), (''D'', 1, 2), (''E'', 4, 1), (''F'', 1, 1), (''G'', 2, 1)]). snd t \<le> snd s"
    using inst by blast
  have d4: "\<forall>s \<in> set (top_decreases [(''A'', 1, 2), (''B'', 1, 3), (''C'', 2, 1), (''D'', 1, 2), (''E'', 4, 1), (''F'', 1, 1), (''G'', 2, 1)]).
      \<forall>t \<in># mset (item_changes [(''A'', 1, 2), (''B'', 1, 3), (''C'', 2, 1), (''D'', 1, 2), (''E'', 4, 1), (''F'', 1, 1), (''G'', 2, 1)]) - mset (top_decreases [(''A'', 1, 2), (''B'', 1, 3), (''C'', 2, 1), (''D'', 1, 2), (''E'', 4, 1), (''F'', 1, 1), (''G'', 2, 1)]). snd s \<le> snd t"
    using inst by blast
  have r1: "list_all (\<lambda>s. list_all (\<lambda>t. snd t \<le> snd s) [(''E'', - 3 / 4), (''G'', - 1 / 2)])
        (top_increases [(''A'', 1, 2), (''B'', 1, 3), (''C'', 2, 1), (''D'', 1, 2), (''E'', 4, 1), (''F'', 1, 1), (''G'', 2, 1)])"
    using i4 unfolding m1 list_all_iff by simp
  have r2: "list_all (\<lambda>s. list_all (\<lambda>t. snd s \<le> snd t) [(''B'', 2), (''D'', 1)])
        (top_decreases [(''A'', 1, 2), (''B'', 1, 3), (''C'', 2, 1), (''D'', 1, 2), (''E'', 4, 1), (''F'', 1, 1), (''G'', 2, 1)])"
    using d4 unfolding m2 list_all_iff by simp
  show ?thesis
    using inst l r1 r2 top_movers_example(2,3) m1 m2
    by blast
qed

text \<open>
  C5 as stated reports the largest positive changes as increases and the largest
  negative changes as decreases, five of each. With two rows, both rising, the
  list of decreases holds the two increases of 100 and 200 per cent.
\<close>

theorem top_movers_spec_counterexample:
  "top_increases [(''Bread (white, pan)'', 1, 2), (''Milk (whole)'', 1, 3)] =
     [(''Milk (whole)'', 2), (''Bread (white, pan)'', 1)]
   \<and> top_decreases [(''Bread (white, pan)'', 1, 2), (''Milk (whole)'', 1, 3)] =
     [(''Bread (white, pan)'', 1), (''Milk (whole)'', 2)]"
  by (simp add: top_increases_def top_decreases_def pct_changes_def)

section \<open>Properties of the yearly average\<close>

lemma fsum_Fin_acc: "foldl fadd (Fin s) (map Fin xs) = Fin (s + sum_list xs)"
  by (induction xs arbitrary: s) (simp_all add: add.assoc)

lemma fsum_Fin: "fsum (map Fin xs) = Fin (sum_list xs)"
  by (simp add: fsum_def fsum_Fin_acc)

lemma parse_observations_numbers:
  "map to_float (filter (\<lambda>v. v \<noteq> [] \<and> v \<noteq> ''.'') (map snd ovs)) = map (\<lambda>x. Inr (Fin x)) xs \<Longrightarrow>
   parse_observations to_float (map (\<lambda>(other, v). other(''value'' \<mapsto> v)) ovs) = Inr (map Fin xs)"
proof (induction ovs arbitrary: xs)
  case Nil
  then show ?case by simp
next
  case (Cons ov ovs)
  obtain other v where ov: "ov = (other, v)" by (cases ov) auto
  show ?case
  proof (cases "v = [] \<or> v = ''.''")
    case True
    with Cons show ?thesis by (auto simp: ov)
  next
    case False
    with Cons.prems obtain x xs' where xs: "xs = x # xs'" and x: "to_float v = Inr (Fin x)"
      and rest: "map to_float (filter (\<lambda>v. v \<noteq> [] \<and> v \<noteq> ''.'') (map snd ovs)) = map (\<lambda>x. Inr (Fin x)) xs'"
      by (cases xs) (auto simp: ov)
    from Cons.IH [OF rest] False x show ?thesis
      by (simp add: ov xs)
  qed
qed

text \<open>
  C6. \<^verbatim>\<open>year_avg\<close>, in both scripts, reads the \<^verbatim>\<open>value\<close> string of every observation
  of the response, treats the empty string and the single dot as absent, converts
  every remaining string to a number and returns the arithmetic mean of those
  numbers; when no value remains it returns not-a-number. The mean is over the
  remaining values only: a missing value is left out of the sum and of the count.
  Here \<open>ovs\<close> gives each observation's other fields and its value string, and
  \<open>xs\<close> are the numbers the remaining strings convert to.
\<close>

theorem year_avg_mean:
  "net series_id year key = Inr (map (\<lambda>(other, v). other(''value'' \<mapsto> v)) ovs)
   \<and> map to_float (filter (\<lambda>v. v \<noteq> [] \<and> v \<noteq> ''.'') (map snd ovs)) = map (\<lambda>x. Inr (Fin x)) xs \<longrightarrow>
     year_avg to_float net series_id year key =
       Inr (if xs = [] then NaN else Fin (sum_list xs / real (length xs)))"
proof
  assume h: "net series_id year key = Inr (map (\<lambda>(other, v). other(''value'' \<mapsto> v)) ovs)
   \<and> map to_float (filter (\<lambda>v. v \<noteq> [] \<and> v \<noteq> ''.'') (map snd ovs)) = map (\<lambda>x. Inr (Fin x)) xs"
  then have "parse_observations to_float (map (\<lambda>(other, v). other(''value'' \<mapsto> v)) ovs) = Inr (map Fin xs)"
    by (intro parse_observations_numbers) simp
  with h show "year_avg to_float net series_id year key =
       Inr (if xs = [] then NaN else Fin (sum_list xs / real (length xs)))"
    by (simp add: year_avg_def fsum_Fin)
qed

theorem year_avg_mean_witness:
  "(\<lambda>sid y k. Inr [ [''value'' \<mapsto> ''1.5''], [''date'' \<mapsto> ''2000-02-01'', ''value'' \<mapsto> ''.''],
        [''value'' \<mapsto> ''''], [''value'' \<mapsto> ''2.5'']]) ''APU0000702111'' 2000 ''k'' =
     (Inr (map (\<lambda>(other, v). other(''value'' \<mapsto> v))
        [(Map.empty, ''1.5''), ([''date'' \<mapsto> ''2000-02-01''], ''.''), (Map.empty, ''''),
         (Map.empty, ''2.5'')]) :: error + observation list)
   \<and> map (\<lambda>s. if s = ''1.5'' then Inr (Fin (3 / 2)) else if s = ''2.5'' then Inr (Fin (5 / 2))
              else Inl ValueError)
        (filter (\<lambda>v. v \<noteq> [] \<and> v \<noteq> ''.'') (map snd
          [(Map.empty :: string \<rightharpoonup> string, ''1.5''), ([''date'' \<mapsto> ''2000-02-01''], ''.''), (Map.empty, ''''),
           (Map.empty, ''2.5'')])) =
      map (\<lambda>x. Inr (Fin x)) [3 / 2, 5 / 2]
   \<and> year_avg
        (\<lambda>s. if s = ''1.5'' then Inr (Fin (3 / 2)) else if s = ''2.5'' then Inr (Fin (5 / 2))
              else Inl ValueError)
        (\<lambda>sid y k. Inr [ [''value'' \<mapsto> ''1.5''], [''date'' \<mapsto> ''2000-02-01'', ''value'' \<mapsto> ''.''],
            [''value'' \<mapsto> ''''], [''value'' \<mapsto> ''2.5'']])
        ''APU0000702111'' 2000 ''k'' = Inr (Fin 2)"
proof -
  let ?net = "(\<lambda>sid y k. Inr [ [''value'' \<mapsto> ''1.5''], [''date'' \<mapsto> ''2000-02-01'', ''value'' \<mapsto> ''.''],
        [''value'' \<mapsto> ''''], [''value'' \<mapsto> ''2.5'']]) :: network"
  let ?ovs = "[(Map.empty :: string \<rightharpoonup> string, ''1.5''), ([''date'' \<mapsto> ''2000-02-01''], ''.''), (Map.empty, ''''),
           (Map.empty, ''2.5'')]"
  let ?pf = "(\<lambda>s. if s = ''1.5'' then Inr (Fin (3 / 2)) else if s = ''2.5'' then Inr (Fin (5 / 2))
              else Inl ValueError) :: parser"
  have a: "?net ''APU0000702111'' 2000 ''k'' = Inr (map (\<lambda>(other, v). other(''value'' \<mapsto> v)) ?ovs)"
    by simp
  have b: "map ?pf (filter (\<lambda>v. v \<noteq> [] \<and> v \<noteq> ''.'') (map snd ?ovs)) = map (\<lambda>x. Inr (Fin x)) [3 / 2, 5 / 2]"
    by simp
  have c: "year_avg ?pf ?net ''APU0000702111'' 2000 ''k'' = Inr (Fin 2)"
    using year_avg_mean [of ?net "''APU0000702111''" 2000 "''k''" ?ovs ?pf "[3 / 2, 5 / 2]", THEN mp, OF conjI [OF a b]]
    by simp
  show ?thesis using a b c by blast
qed

section \<open>The missing credential\<close>

lemma get_key_missing:
  "env ''FRED_API_KEY'' = None \<or> env ''FRED_API_KEY'' = Some [] \<Longrightarrow>
   get_key env = Inl (SystemExit ''Set FRED_API_KEY in your environment (export FRED_API_KEY=...).'')"
  by (auto simp: get_key_def)

lemma load_KEY_missing:
  "env ''FRED_API_KEY'' = None \<or> env ''FRED_API_KEY'' = Some [] \<Longrightarrow>
   load_KEY env = Inl (SystemExit ''Set FRED_API_KEY in your environment'')"
  by (auto simp: load_KEY_def)

lemma fetch_rows_extends:
  "prefix reqs (fst (fetch_rows to_float net key ya yb series reqs rows))"
proof (induction series arbitrary: reqs rows)
  case Nil
  then show ?case by simp
next
  case (Cons entry series)
  obtain item unit sid where e: "entry = (item, unit, sid)" by (cases entry) auto
  show ?case
    using Cons.IH [of "reqs @ [(sid, ya), (sid, yb)]"]
    by (auto simp: e split: sum.splits dest: append_prefixD)
qed

lemma fetch_rows_nonempty:
  "reqs \<noteq> [] \<Longrightarrow> fst (fetch_rows to_float net key ya yb series reqs rows) \<noteq> []"
  using fetch_rows_extends [of reqs to_float net key ya yb series rows] by auto

lemma main_fetch_requests_with_key:
  assumes "parse_args argv = Inr args" and "env ''FRED_API_KEY'' = Some key" and "key \<noteq> []"
  shows "fst (main_fetch parse_args argv env to_float net) \<noteq> []"
proof -
  let ?ya = "arg_year_a args" and ?yb = "arg_year_b args"
  have k: "get_key env = Inr key" using assms by (simp add: get_key_def)
  obtain entry series where s: "SERIES = entry # series" by (simp add: SERIES_def)
  obtain item unit sid where e: "entry = (item, unit, sid)" by (cases entry) auto
  have "fst (fetch_rows to_float net key ?ya ?yb (entry # series) [] []) \<noteq> []"
    by (simp add: e fetch_rows_nonempty split: sum.splits)
  then show ?thesis using assms(1) k by (simp add: main_fetch_def s)
qed

text \<open>
  C9, as amended. When the environment variable \<^verbatim>\<open>FRED_API_KEY\<close> is unset or empty,
  a run of \<^verbatim>\<open>personal_inflation_fred_plus.py\<close> whose command line parses, and every
  run of \<^verbatim>\<open>personal_inflation.py\<close>, ends with a non-zero exit status and the message
  that tells to set \<^verbatim>\<open>FRED_API_KEY\<close> in the environment, with no request issued.
\<close>

theorem missing_key_exits_before_requests:
  "(parse_args argv = Inr args
      \<and> (env ''FRED_API_KEY'' = None \<or> env ''FRED_API_KEY'' = Some []) \<longrightarrow>
      main_fetch parse_args argv env to_float net =
        ([], Inl (SystemExit ''Set FRED_API_KEY in your environment (export FRED_API_KEY=...).''))
      \<and> exit_status (snd (main_fetch parse_args argv env to_float net)) \<noteq> 0
      \<and> exit_message (snd (main_fetch parse_args argv env to_float net)) =
          Some ''Set FRED_API_KEY in your environment (export FRED_API_KEY=...).'')
   \<and> (env ''FRED_API_KEY'' = None \<or> env ''FRED_API_KEY'' = Some [] \<longrightarrow>
      personal_inflation_run env to_float net =
        ([], Inl (SystemExit ''Set FRED_API_KEY in your environment''))
      \<and> exit_status (snd (personal_inflation_run env to_float net)) \<noteq> 0
      \<and> exit_message (snd (personal_inflation_run env to_float net)) =
          Some ''Set FRED_API_KEY in your environment'')"
proof (intro conjI impI)
  assume h: "parse_args argv = Inr args
      \<and> (env ''FRED_API_KEY'' = None \<or> env ''FRED_API_KEY'' = Some [])"
  then have m: "main_fetch parse_args argv env to_float net =
        ([], Inl (SystemExit ''Set FRED_API_KEY in your environment (export FRED_API_KEY=...).''))"
    by (simp add: main_fetch_def get_key_missing)
  then show "main_fetch parse_args argv env to_float net =
        ([], Inl (SystemExit ''Set FRED_API_KEY in your environment (export FRED_API_KEY=...).''))" .
  from m show "exit_status (snd (main_fetch parse_args argv env to_float net)) \<noteq> 0"
    by simp
  from m show "exit_message (snd (main_fetch parse_args argv env to_float net)) =
          Some ''Set FRED_API_KEY in your environment (export FRED_API_KEY=...).''"
    by simp
next
  assume h: "env ''FRED_API_KEY'' = None \<or> env ''FRED_API_KEY'' = Some []"
  then have m: "personal_inflation_run env to_float net =
        ([], Inl (SystemExit ''Set FRED_API_KEY in your environment''))"
    by (simp add: personal_inflation_run_def load_KEY_missing)
  then show "personal_inflation_run env to_float net =
        ([], Inl (SystemExit ''Set FRED_API_KEY in your environment''))" .
  from m show "exit_status (snd (personal_inflation_run env to_float net)) \<noteq> 0"
    by simp
  from m show "exit_message (snd (personal_inflation_run env to_float net)) =
          Some ''Set FRED_API_KEY in your environment''"
    by simp
qed

theorem missing_key_exits_before_requests_witness:
  "(\<lambda>argv. if argv = [''--help''] then Inl (SystemExitStatus 0)
            else Inr \<lparr>arg_year_a = 2000, arg_year_b = 2024, arg_out = ''fred_basket.csv'',
                      arg_plot = False, arg_weighted = False, arg_weights = None,
                      arg_print_weights = False\<rparr>) [] =
     (Inr \<lparr>arg_year_a = 2000, arg_year_b = 2024, arg_out = ''fred_basket.csv'',
           arg_plot = False, arg_weighted = False, arg_weights = None,
           arg_print_weights = False\<rparr> :: error + args)
   \<and> ([''HOME'' \<mapsto> ''/root'', ''FRED_API_KEY'' \<mapsto> []] ''FRED_API_KEY'' = None
        \<or> [''HOME'' \<mapsto> ''/root'', ''FRED_API_KEY'' \<mapsto> []] ''FRED_API_KEY'' = Some [])
   \<and> main_fetch
        (\<lambda>argv. if argv = [''--help''] then Inl (SystemExitStatus 0)
            else Inr \<lparr>arg_year_a = 2000, arg_year_b = 2024, arg_out = ''fred_basket.csv'',
                      arg_plot = False, arg_weighted = False, arg_weights = None,
                      arg_print_weights = False\<rparr>)
        [] [''HOME'' \<mapsto> ''/root'', ''FRED_API_KEY'' \<mapsto> []]
        (\<lambda>s. Inl ValueError) (\<lambda>sid y k. Inl HTTPError) =
      ([], Inl (SystemExit ''Set FRED_API_KEY in your environment (export FRED_API_KEY=...).''))
   \<and> personal_inflation_run [''HOME'' \<mapsto> ''/root'', ''FRED_API_KEY'' \<mapsto> []]
        (\<lambda>s. Inl ValueError) (\<lambda>sid y k. Inl HTTPError) =
      ([], Inl (SystemExit ''Set FRED_API_KEY in your environment''))"
proof -
  let ?pa = "(\<lambda>argv. if argv = [''--help''] then Inl (SystemExitStatus 0)
            else Inr \<lparr>arg_year_a = 2000, arg_year_b = 2024, arg_out = ''fred_basket.csv'',
                      arg_plot = False, arg_weighted = False, arg_weights = None,
                      arg_print_weights = False\<rparr>) :: arg_parser"
  let ?args = "\<lparr>arg_year_a = 2000, arg_year_b = 2024, arg_out = ''fred_basket.csv'',
           arg_plot = False, arg_weighted = False, arg_weights = None,
           arg_print_weights = False\<rparr>"
  let ?env = "[''HOME'' \<mapsto> ''/root'', ''FRED_API_KEY'' \<mapsto> []]"
  have a: "?pa [] = Inr ?args" by simp
  have b: "?env ''FRED_API_KEY'' = None \<or> ?env ''FRED_API_KEY'' = Some []" by simp
  note inst = missing_key_exits_before_requests
    [of ?pa "[]" ?args ?env "\<lambda>s. Inl ValueError" "\<lambda>sid y k. Inl HTTPError"]
  have c: "main_fetch ?pa [] ?env (\<lambda>s. Inl ValueError) (\<lambda>sid y k. Inl HTTPError) =
      ([], Inl (SystemExit ''Set FRED_API_KEY in your environment (export FRED_API_KEY=...).''))"
    using inst [THEN conjunct1, THEN mp, OF conjI [OF a b]] by blast
  have d: "personal_inflation_run ?env (\<lambda>s. Inl ValueError) (\<lambda>sid y k. Inl HTTPError) =
      ([], Inl (SystemExit ''Set FRED_API_KEY in your environment''))"
    using inst [THEN conjunct2, THEN mp, OF b] by blast
  show ?thesis using a b c d by blast
qed

text \<open>
  C9 as stated covers every run. \<^verbatim>\<open>main\<close> parses the command line before it reads
  the key: a run with \<^verbatim>\<open>--help\<close> and no key ends in the argument parser, with the
  status 0 of a help request and without the message about the key.
\<close>

theorem missing_key_exits_before_requests_counterexample:
  "Map.empty ''FRED_API_KEY'' = (None :: string option)
   \<and> main_fetch
        (\<lambda>argv. if argv = [''--help''] then Inl (SystemExitStatus 0)
            else Inr \<lparr>arg_year_a = 2000, arg_year_b = 2024, arg_out = ''fred_basket.csv'',
                      arg_plot = False, arg_weighted = False, arg_weights = None,
                      arg_print_weights = False\<rparr>)
        [''--help''] Map.empty (\<lambda>s. Inl ValueError) (\<lambda>sid y k. Inl HTTPError) =
      ([], Inl (SystemExitStatus 0))
   \<and> exit_status (Inl (SystemExitStatus 0) :: error + (string \<times> real \<times> real) list) = 0
   \<and> exit_message (Inl (SystemExitStatus 0) :: error + (string \<times> real \<times> real) list) = None"
  by (simp add: main_fetch_def)

end
